theory Spec2Isabelle
  imports Complex_Main
begin

section \<open>Data model of the record store (script.js)\<close>

text \<open>
  The browser keeps every table as a JSON array under one localStorage key. The model
  keeps the decoded value: a key is either absent (\<open>None\<close>) or holds a list of
  records. Record fields are typed. Text fields are strings. Stored quantities are
  integers: every quantity the source stores is a result of \<open>parseInt\<close>. Money amounts
  are JavaScript numbers, modelled as real numbers with the rounding of binary floating
  point left out. Stored text that does not parse as a JSON array of such records, and
  arguments that read as \<open>NaN\<close>, are outside the model.
\<close>

record user =
  user_id :: string
  companyName :: string
  username :: string
  contactPerson :: string
  password :: string
  role :: string
  status :: string

record inventory_item =
  inv_id :: string
  inv_owner :: string
  inv_itemName :: string
  inv_quantity :: int
  inv_avgCost :: real

record sale =
  sale_id :: string
  sale_owner :: string
  sale_date :: string
  sale_itemName :: string
  sale_quantity :: int
  sale_price :: real
  sale_total :: real

record purchase =
  pur_id :: string
  pur_owner :: string
  pur_date :: string
  pur_vendor :: string
  pur_category :: string
  pur_brand :: string
  pur_model :: string
  pur_itemName :: string
  pur_quantity :: int
  pur_cost :: real
  pur_paymentType :: string

record expense =
  exp_id :: string
  exp_owner :: string
  exp_name :: string
  exp_amount :: real
  exp_date :: string

text \<open>The body of a \<open>save_record\<close> request: the record that was just written.\<close>

datatype payload =
    UserRec user
  | InventoryRec inventory_item
  | SaleRec sale
  | PurchaseRec purchase
  | ExpenseRec expense
  | SettingRec string string

text \<open>
  A request handed to \<open>fetch\<close>: the snapshot read of \<open>syncDown\<close>, or the
  \<open>save_record\<close> post of \<open>pushRecord\<close> with its url, table key and record.
\<close>

datatype request =
    GET string
  | POST string string payload

text \<open>
  The state the two classes work on: the localStorage keys of \<open>DB_KEYS\<close>, the
  \<open>url\<close> field of \<open>BMS_Cloud\<close>, and the requests issued so far, oldest first.
\<close>

record state =
  ims_users :: "user list option"
  ims_inventory :: "inventory_item list option"
  ims_sales :: "sale list option"
  ims_purchases :: "purchase list option"
  ims_expenses :: "expense list option"
  ims_current_user :: "user option"
  ims_banner :: "string option"
  ims_vertical_banner :: "string option"
  url :: string
  sent :: "request list"

text \<open>The reading of the clock an operation takes: \<open>Date.now()\<close> and the ISO date.\<close>

record clock =
  now :: nat
  iso :: string

text \<open>The \<open>{success, message}\<close> objects returned to the caller.\<close>

record result =
  success :: bool
  message :: "string option"

datatype error = TypeError

section \<open>Constants\<close>

definition USERS :: string where "USERS = ''ims_users''"
definition INVENTORY :: string where "INVENTORY = ''ims_inventory''"
definition SALES :: string where "SALES = ''ims_sales''"
definition EXPENSES :: string where "EXPENSES = ''ims_expenses''"
definition BANNER :: string where "BANNER = ''ims_banner''"
definition VERTICAL_BANNER :: string where "VERTICAL_BANNER = ''ims_vertical_banner''"

definition ADMIN :: string where "ADMIN = ''Admin''"
definition USER :: string where "USER = ''User''"

definition INITIAL_ADMIN :: user where
  "INITIAL_ADMIN = \<lparr> user_id = ''admin_001'', companyName = ''Admin'', username = ''Admin'',
     contactPerson = ''Admin'', password = ''admin123'', role = ADMIN, status = ''Approved'' \<rparr>"

section \<open>Library functions of the language\<close>

text \<open>
  \<open>String.prototype.toLowerCase\<close> maps every cased letter of Unicode, by tables of
  the engine. The operations that call it (\<open>register\<close>, \<open>addStock\<close>, \<open>processSale\<close>)
  take the mapping as their first argument \<open>toLowerCase\<close>, and what is proved about
  them is proved for every function on strings in its place. On text whose cased
  letters are the letters A to Z it is the function \<open>toLowerCase_ascii\<close>, which the
  examples use.
\<close>

definition lower_char :: "char \<Rightarrow> char" where
  "lower_char c =
     (case map_of (zip ''ABCDEFGHIJKLMNOPQRSTUVWXYZ'' ''abcdefghijklmnopqrstuvwxyz'') c of
        Some d \<Rightarrow> d
      | None \<Rightarrow> c)"

definition toLowerCase_ascii :: "string \<Rightarrow> string" where
  "toLowerCase_ascii s = map lower_char s"

text \<open>The decimal text of a number, as string concatenation with \<open>Date.now()\<close> gives.\<close>

definition digit :: "nat \<Rightarrow> char" where
  "digit d = ''0123456789'' ! d"

fun string_of_nat :: "nat \<Rightarrow> string" where
  "string_of_nat n =
     (if n < 10 then [digit n] else string_of_nat (n div 10) @ [digit (n mod 10)])"

declare string_of_nat.simps [simp del]

text \<open>
  The quantity argument of \<open>addStock\<close> and \<open>processSale\<close> is a JavaScript value
  that the source reads in two ways: as a number, where \<open>processSale\<close> compares it
  with the stock (\<open>item.quantity < quantity\<close>), and through \<open>parseInt\<close>, which
  converts it to text and parses the digits at the start of that text. The argument is
  given by these two readings, and nothing relates them: they agree on a whole number
  of magnitude below \<open>1e21\<close> and on its decimal text, and they differ elsewhere. The number
  \<open>5e-7\<close> has the text \<open>5e-7\<close>, so \<open>parseInt\<close> reads 5; the number \<open>1e21\<close> has the
  text \<open>1e+21\<close>, so \<open>parseInt\<close> reads 1; the string \<open>9e-1\<close> is the number 0.9 and
  \<open>parseInt\<close> reads 9.
\<close>

record quantity_arg =
  toNumber :: real
  parseInt :: int

text \<open>
  \<open>parseFloat\<close> applied to a number converts it to text and reads the number back.
\<close>

definition parseFloat :: "real \<Rightarrow> real" where
  "parseFloat x = x"

text \<open>
  \<open>JSON.parse(localStorage.getItem(key)) || []\<close>: an absent key reads as the empty
  array.
\<close>

definition or_empty :: "'a list option \<Rightarrow> 'a list" where
  "or_empty t = (case t of None \<Rightarrow> [] | Some xs \<Rightarrow> xs)"

text \<open>
  \<open>Array.prototype.find\<close> returns a reference to the first element that satisfies the
  predicate, and the source assigns to a field of it before writing the array back:
  the first such element of the array is the one that changes.
\<close>

fun update_first :: "('a \<Rightarrow> bool) \<Rightarrow> ('a \<Rightarrow> 'a) \<Rightarrow> 'a list \<Rightarrow> 'a list" where
  "update_first P f [] = []"
| "update_first P f (x # xs) = (if P x then f x # xs else x # update_first P f xs)"

section \<open>Cloud sync service (class BMS_Cloud)\<close>

text \<open>
  \<open>pushRecord\<close> returns at once when no url is configured; otherwise it hands one
  \<open>save_record\<close> request to \<open>fetch\<close> and does not wait for it.
\<close>

definition pushRecord :: "string \<Rightarrow> payload \<Rightarrow> state \<Rightarrow> state" where
  "pushRecord key data s =
     (if url s = [] then s
      else s\<lparr>sent := sent s @ [POST (url s) key data]\<rparr>)"

text \<open>
  What the snapshot holds under a table key: nothing, a value that is not an array, or
  an array of records.
\<close>

datatype 'a js_val = Undefined | NotArray | Array "'a list"

record snapshot =
  data_ims_users :: "user js_val"
  data_ims_inventory :: "inventory_item js_val"
  data_ims_sales :: "sale js_val"
  data_ims_purchases :: "purchase js_val"
  data_ims_expenses :: "expense js_val"
  data_ims_banner :: "string option"
  data_ims_vertical_banner :: "string option"

record json =
  json_result :: string
  json_data :: "snapshot option"
  json_error :: string

text \<open>
  The outcome of \<open>fetch\<close> and \<open>res.json()\<close>: rejected with an error (given by its
  text), or resolved to the decoded body.
\<close>

datatype response = Rejects string | Resolves json

text \<open>
  The helper \<open>saveIfValid\<close> of \<open>syncDown\<close>, as the new content of the key it is
  called on: the remote value when it is an array of positive length, the old content
  otherwise.
\<close>

definition saveIfValid :: "'a list option \<Rightarrow> 'a js_val \<Rightarrow> 'a list option" where
  "saveIfValid stored val =
     (case val of
        Array xs \<Rightarrow> if length xs > 0 then Some xs else stored
      | _ \<Rightarrow> stored)"

definition failure :: "string \<Rightarrow> result" where
  "failure m = \<lparr> success = False, message = Some m \<rparr>"

text \<open>
  \<open>syncDown\<close>, given the outcome the request will have. A body that reports success
  without a \<open>data\<close> object makes \<open>data.ims_users\<close> throw; the \<open>catch\<close> turns that
  into a failure result whose text after the prefix depends on the engine.
\<close>

definition syncDown :: "response \<Rightarrow> state \<Rightarrow> result \<times> state" where
  "syncDown resp s =
     (if url s = [] then (failure ''No Cloud URL configured'', s)
      else
        let s1 = s\<lparr>sent := sent s @ [GET (url s)]\<rparr> in
        case resp of
          Rejects e \<Rightarrow> (failure (''Network/Sync Error: '' @ e), s1)
        | Resolves body \<Rightarrow>
            if json_result body = ''success'' then
              (case json_data body of
                 None \<Rightarrow> (failure (''Network/Sync Error: '' @ ''TypeError''), s1)
               | Some data \<Rightarrow>
                   (\<lparr> success = True, message = Some ''Data synced from Cloud'' \<rparr>,
                    s1\<lparr> ims_users := saveIfValid (ims_users s1) (data_ims_users data),
                        ims_inventory := saveIfValid (ims_inventory s1) (data_ims_inventory data),
                        ims_sales := saveIfValid (ims_sales s1) (data_ims_sales data),
                        ims_purchases := saveIfValid (ims_purchases s1) (data_ims_purchases data),
                        ims_expenses := saveIfValid (ims_expenses s1) (data_ims_expenses data),
                        ims_banner :=
                          (case data_ims_banner data of
                             None \<Rightarrow> ims_banner s1
                           | Some b \<Rightarrow> if b \<noteq> [] then Some b else ims_banner s1),
                        ims_vertical_banner :=
                          (case data_ims_vertical_banner data of
                             None \<Rightarrow> ims_vertical_banner s1
                           | Some b \<Rightarrow> if b \<noteq> [] then Some b else ims_vertical_banner s1) \<rparr>))
            else (failure (''Cloud Error: '' @ json_error body), s1))"

section \<open>Core operations (class BMS_Core)\<close>

text \<open>\<open>if (!localStorage.getItem(key)) localStorage.setItem(key, dflt)\<close>\<close>

definition init_key :: "'a \<Rightarrow> 'a option \<Rightarrow> 'a option" where
  "init_key dflt v = (case v of None \<Rightarrow> Some dflt | Some x \<Rightarrow> Some x)"

definition initStorage :: "state \<Rightarrow> state" where
  "initStorage s =
     (let users = or_empty (ims_users s);
          users = filter (\<lambda>u. user_id u \<noteq> ''admin_001'') users;
          users = INITIAL_ADMIN # users
      in s\<lparr> ims_users := Some users,
            ims_inventory := init_key [] (ims_inventory s),
            ims_sales := init_key [] (ims_sales s),
            ims_purchases := init_key [] (ims_purchases s),
            ims_expenses := init_key [] (ims_expenses s),
            ims_banner := init_key [] (ims_banner s) \<rparr>)"

text \<open>
  \<open>register\<close> reads the users key without a default, so an absent key makes
  \<open>users.find\<close> throw.
\<close>

definition register ::
  "(string \<Rightarrow> string) \<Rightarrow> clock \<Rightarrow> string \<Rightarrow> string \<Rightarrow> string \<Rightarrow> state \<Rightarrow>
     error + result \<times> state" where
  "register toLowerCase c company contact pw s =
     (case ims_users s of
        None \<Rightarrow> Inl TypeError
      | Some users \<Rightarrow>
          let uname = company in
          if find (\<lambda>u. toLowerCase (username u) = toLowerCase uname) users \<noteq> None
          then Inr (failure ''Company Name already registered'', s)
          else
            let newUser = \<lparr> user_id = ''user_'' @ string_of_nat (now c),
                            companyName = company, username = uname,
                            contactPerson = contact, password = pw,
                            role = USER, status = ''Pending'' \<rparr>;
                s1 = s\<lparr>ims_users := Some (users @ [newUser])\<rparr>;
                s2 = pushRecord USERS (UserRec newUser) s1
            in Inr (\<lparr> success = True,
                      message = Some ''Registration successful! Wait for Admin approval.'' \<rparr>, s2))"

definition getCurrentUser :: "state \<Rightarrow> user option" where
  "getCurrentUser s = ims_current_user s"

definition getInventory :: "state \<Rightarrow> inventory_item list" where
  "getInventory s =
     (let allInventory = or_empty (ims_inventory s) in
      case getCurrentUser s of
        None \<Rightarrow> []
      | Some user \<Rightarrow>
          if role user = ADMIN then []
          else filter (\<lambda>i. inv_owner i = username user) allInventory)"

definition getSales :: "state \<Rightarrow> sale list" where
  "getSales s =
     (let allSales = or_empty (ims_sales s) in
      case getCurrentUser s of
        None \<Rightarrow> []
      | Some user \<Rightarrow>
          if role user = ADMIN then []
          else filter (\<lambda>x. sale_owner x = username user) allSales)"

definition getPurchases :: "state \<Rightarrow> purchase list" where
  "getPurchases s =
     (let allPurchases = or_empty (ims_purchases s) in
      case getCurrentUser s of
        None \<Rightarrow> []
      | Some user \<Rightarrow>
          if role user = ADMIN then []
          else filter (\<lambda>p. pur_owner p = username user) allPurchases)"

definition getExpenses :: "state \<Rightarrow> expense list" where
  "getExpenses s =
     (let allExpenses = or_empty (ims_expenses s) in
      case getCurrentUser s of
        None \<Rightarrow> []
      | Some user \<Rightarrow>
          if role user = ADMIN then []
          else filter (\<lambda>e. exp_owner e = username user) allExpenses)"

record summary =
  totalSales :: real
  totalExpenses :: real
  netProfit :: real

text \<open>\<open>reduce\<close> with a start value runs over the array from the left.\<close>

definition getFinancialSummary :: "state \<Rightarrow> summary" where
  "getFinancialSummary s =
     (let sales = getSales s;
          expenses = getExpenses s;
          tSales = foldl (\<lambda>sum x. sum + sale_total x) 0 sales;
          tExpenses = foldl (\<lambda>sum e. sum + exp_amount e) 0 expenses;
          net = tSales - tExpenses
      in \<lparr> totalSales = tSales, totalExpenses = tExpenses, netProfit = net \<rparr>)"

text \<open>
  The test both \<open>addStock\<close> and \<open>processSale\<close> give to \<open>find\<close>: same owner,
  same item name up to letter case.
\<close>

definition same_item ::
  "(string \<Rightarrow> string) \<Rightarrow> user \<Rightarrow> string \<Rightarrow> inventory_item \<Rightarrow> bool" where
  "same_item toLowerCase user itemName i \<longleftrightarrow>
     inv_owner i = username user \<and> toLowerCase (inv_itemName i) = toLowerCase itemName"


text \<open>
  The stock test compares the stored quantity with the argument as a number; the
  deduction and the sale record use \<open>parseInt(quantity)\<close>.
\<close>

definition processSale ::
  "(string \<Rightarrow> string) \<Rightarrow> clock \<Rightarrow> string \<Rightarrow> quantity_arg \<Rightarrow> real \<Rightarrow> state \<Rightarrow>
     result \<times> state" where
  "processSale toLowerCase c itemName quantity price s =
     (case getCurrentUser s of
        None \<Rightarrow> (failure ''Not logged in'', s)
      | Some user \<Rightarrow>
          let allInventory = or_empty (ims_inventory s) in
          (case find (same_item toLowerCase user itemName) allInventory of
            None \<Rightarrow> (failure ''Insufficient Stock'', s)
          | Some item \<Rightarrow>
              if of_int (inv_quantity item) < toNumber quantity
              then (failure ''Insufficient Stock'', s)
              else
                let deduct = (\<lambda>i. i\<lparr>inv_quantity := inv_quantity i - parseInt quantity\<rparr>);
                    s1 = s\<lparr>ims_inventory :=
                           Some (update_first (same_item toLowerCase user itemName) deduct
                             allInventory)\<rparr>;
                    s2 = pushRecord INVENTORY (InventoryRec (deduct item)) s1;
                    allSales = or_empty (ims_sales s2);
                    newSale = \<lparr> sale_id = ''sale_'' @ string_of_nat (now c),
                      sale_owner = username user, sale_date = iso c,
                      sale_itemName = itemName, sale_quantity = parseInt quantity,
                      sale_price = parseFloat price,
                      sale_total = of_int (parseInt quantity) * parseFloat price \<rparr>;
                    s3 = s2\<lparr>ims_sales := Some (allSales @ [newSale])\<rparr>
                in (\<lparr> success = True, message = None \<rparr>,
                    pushRecord SALES (SaleRec newSale) s3)))"

text \<open>
  The administrative operations on the users table. \<open>findIndex\<close> gives the position
  of the first element that satisfies the predicate, \<open>None\<close> standing for \<open>-1\<close>;
  \<open>splice(userIndex, 1)\<close> removes the element at that position.
\<close>

definition getUsers :: "state \<Rightarrow> user list" where
  "getUsers s = or_empty (ims_users s)"

fun findIndex :: "('a \<Rightarrow> bool) \<Rightarrow> 'a list \<Rightarrow> nat option" where
  "findIndex P [] = None"
| "findIndex P (x # xs) = (if P x then Some 0 else map_option Suc (findIndex P xs))"

definition resetPassword :: "string \<Rightarrow> string \<Rightarrow> state \<Rightarrow> bool \<times> state" where
  "resetPassword userId newPassword s =
     (let users = getUsers s in
      case findIndex (\<lambda>u. user_id u = userId) users of
        Some userIndex \<Rightarrow>
          let changed = (users ! userIndex)\<lparr>password := newPassword\<rparr>;
              s1 = s\<lparr>ims_users := Some (users[userIndex := changed])\<rparr>
          in (True, pushRecord USERS (UserRec changed) s1)
      | None \<Rightarrow> (False, s))"

definition updateUserStatus :: "string \<Rightarrow> string \<Rightarrow> state \<Rightarrow> bool \<times> state" where
  "updateUserStatus userId newStatus s =
     (let users = getUsers s in
      case findIndex (\<lambda>u. user_id u = userId) users of
        Some userIndex \<Rightarrow>
          if role (users ! userIndex) \<noteq> ADMIN then
            if newStatus = ''Delete''
            then (True, s\<lparr>ims_users := Some (take userIndex users @ drop (Suc userIndex) users)\<rparr>)
            else
              let changed = (users ! userIndex)\<lparr>status := newStatus\<rparr>;
                  s1 = pushRecord USERS (UserRec changed) s
              in (True, s1\<lparr>ims_users := Some (users[userIndex := changed])\<rparr>)
          else (False, s)
      | None \<Rightarrow> (False, s))"

text \<open>
  The users table holds exactly one record with the reserved id, and that record has
  the administrator role.
\<close>

definition one_admin :: "user list \<Rightarrow> bool" where
  "one_admin users \<longleftrightarrow> map role (filter (\<lambda>u. user_id u = ''admin_001'') users) = [ADMIN]"

section \<open>Sequences of stock operations\<close>






section \<open>Example data\<close>

definition acme :: user where
  "acme = \<lparr> user_id = ''user_1700000000000'', companyName = ''Acme'', username = ''Acme'',
     contactPerson = ''Ann'', password = ''secret'', role = USER, status = ''Approved'' \<rparr>"

definition widget :: "string \<Rightarrow> string \<Rightarrow> int \<Rightarrow> inventory_item" where
  "widget ident own q = \<lparr> inv_id = ident, inv_owner = own, inv_itemName = ''Widget A'',
     inv_quantity = q, inv_avgCost = 2 \<rparr>"

definition sold :: "string \<Rightarrow> int \<Rightarrow> real \<Rightarrow> sale" where
  "sold own q p = \<lparr> sale_id = ''sale_1'', sale_owner = own, sale_date = ''2024-01-05'',
     sale_itemName = ''Widget A'', sale_quantity = q, sale_price = p,
     sale_total = of_int q * p \<rparr>"

definition bought :: "string \<Rightarrow> purchase" where
  "bought own = \<lparr> pur_id = ''pur_1'', pur_owner = own, pur_date = ''2024-01-02'',
     pur_vendor = ''Vendor'', pur_category = ''Tools'', pur_brand = ''Widget'',
     pur_model = ''A'', pur_itemName = ''Widget A'', pur_quantity = 10, pur_cost = 2,
     pur_paymentType = ''Cash'' \<rparr>"

definition spent :: "string \<Rightarrow> real \<Rightarrow> expense" where
  "spent own a = \<lparr> exp_id = ''exp_1'', exp_owner = own, exp_name = ''Rent'',
     exp_amount = a, exp_date = ''2024-01-03'' \<rparr>"


definition q_5e_7 :: quantity_arg where
  "q_5e_7 = \<lparr> toNumber = 5 / 10000000, parseInt = 5 \<rparr>"


definition c0 :: clock where
  "c0 = \<lparr> now = 1700000000123, iso = ''2023-11-14T22:13:20.123Z'' \<rparr>"

definition empty_state :: state where
  "empty_state = \<lparr> ims_users = None, ims_inventory = None, ims_sales = None,
     ims_purchases = None, ims_expenses = None, ims_current_user = None,
     ims_banner = None, ims_vertical_banner = None, url = [], sent = [] \<rparr>"

text \<open>
  The tenant Acme is logged in; the tables also hold records of the tenants
  \<open>acme\<close> (lower case) and \<open>Bolt\<close>. No cloud url is configured.
\<close>

definition acme_shop :: state where
  "acme_shop = \<lparr> ims_users = Some [INITIAL_ADMIN, acme],
     ims_inventory = Some [widget ''inv_1'' ''acme'' 3, widget ''inv_2'' ''Acme'' 10],
     ims_sales = Some [sold ''Acme'' 4 5, sold ''Bolt'' 1 7],
     ims_purchases = Some [bought ''Bolt'', bought ''Acme''],
     ims_expenses = Some [spent ''Acme'' 6, spent ''Bolt'' 1, spent ''Acme'' 3],
     ims_current_user = Some acme,
     ims_banner = Some [], ims_vertical_banner = None, url = [], sent = [] \<rparr>"

text \<open>The same storage with the built-in administrator logged in.\<close>

definition admin_session :: state where
  "admin_session = acme_shop\<lparr>ims_current_user := Some INITIAL_ADMIN\<rparr>"


text \<open>The same storage with a cloud url configured.\<close>

definition acme_online :: state where
  "acme_online = acme_shop\<lparr>url := ''https://sheet.example/exec''\<rparr>"

text \<open>
  A snapshot with an empty users array, three inventory items, no sales entry, and a
  purchases entry that is not an array.
\<close>

definition remote_data :: snapshot where
  "remote_data = \<lparr> data_ims_users = Array [],
     data_ims_inventory = Array [widget ''inv_7'' ''Acme'' 1, widget ''inv_8'' ''Bolt'' 2,
       widget ''inv_9'' ''Acme'' 5],
     data_ims_sales = Undefined, data_ims_purchases = NotArray,
     data_ims_expenses = Array [spent ''Bolt'' 9],
     data_ims_banner = None, data_ims_vertical_banner = None \<rparr>"

definition remote_body :: json where
  "remote_body = \<lparr> json_result = ''success'', json_data = Some remote_data, json_error = [] \<rparr>"

text \<open>A snapshot whose users array holds the registered tenants only.\<close>

definition tenants_body :: json where
  "tenants_body = \<lparr> json_result = ''success'',
     json_data = Some (remote_data\<lparr>data_ims_users := Array [acme]\<rparr>), json_error = [] \<rparr>"

section \<open>Auxiliary facts\<close>

lemma foldl_add_sum_list:
  fixes z :: real
  shows "foldl (\<lambda>a x. a + f x) z xs = z + sum_list (map f xs)"
  by (induction xs arbitrary: z) simp_all





subsection \<open>Snapshot merge\<close>

lemma saveIfValid_invalid:
  "v = Undefined \<or> v = NotArray \<or> v = Array [] \<Longrightarrow> saveIfValid t v = t"
  by (auto simp: saveIfValid_def)

lemma saveIfValid_valid:
  "xs \<noteq> [] \<Longrightarrow> saveIfValid t (Array xs) = Some xs"
  by (simp add: saveIfValid_def)

lemma saveIfValid_nonempty:
  "or_empty t \<noteq> [] \<Longrightarrow> or_empty (saveIfValid t v) \<noteq> []"
  by (cases v) (auto simp: saveIfValid_def or_empty_def)

lemma syncDown_success_tables:
  assumes "json_result body = ''success''" "json_data body = Some data"
  shows "ims_users (snd (syncDown (Resolves body) s)) =
           (if url s = [] then ims_users s
            else saveIfValid (ims_users s) (data_ims_users data))"
    and "ims_inventory (snd (syncDown (Resolves body) s)) =
           (if url s = [] then ims_inventory s
            else saveIfValid (ims_inventory s) (data_ims_inventory data))"
    and "ims_sales (snd (syncDown (Resolves body) s)) =
           (if url s = [] then ims_sales s
            else saveIfValid (ims_sales s) (data_ims_sales data))"
    and "ims_purchases (snd (syncDown (Resolves body) s)) =
           (if url s = [] then ims_purchases s
            else saveIfValid (ims_purchases s) (data_ims_purchases data))"
    and "ims_expenses (snd (syncDown (Resolves body) s)) =
           (if url s = [] then ims_expenses s
            else saveIfValid (ims_expenses s) (data_ims_expenses data))"
  using assms by (simp_all add: syncDown_def Let_def)

subsection \<open>Sales\<close>




subsection \<open>Purchases\<close>





subsection \<open>Stock levels along a sequence of operations\<close>






subsection \<open>The built-in administrator\<close>

lemma initStorage_admin:
  "filter (\<lambda>u. user_id u = ''admin_001'') (getUsers (initStorage s)) = [INITIAL_ADMIN]"
  by (simp add: initStorage_def getUsers_def Let_def or_empty_def INITIAL_ADMIN_def)

lemma initStorage_one_admin: "one_admin (getUsers (initStorage s))"
  by (simp add: one_admin_def initStorage_admin) (simp add: INITIAL_ADMIN_def)

lemma findIndex_Some: "findIndex P xs = Some i \<Longrightarrow> i < length xs \<and> P (xs ! i)"
proof (induction xs arbitrary: i)
  case Nil
  then show ?case by simp
next
  case (Cons a xs)
  then show ?case by (cases "P a") auto
qed

lemma map_filter_list_update:
  "i < length xs \<Longrightarrow> Q y = Q (xs ! i) \<Longrightarrow> g y = g (xs ! i) \<Longrightarrow>
     map g (filter Q (xs[i := y])) = map g (filter Q xs)"
proof (induction xs arbitrary: i)
  case Nil
  then show ?case by simp
next
  case (Cons a xs)
  then show ?case by (cases i) auto
qed

lemma filter_remove_nth:
  "i < length xs \<Longrightarrow> \<not> Q (xs ! i) \<Longrightarrow> filter Q (take i xs @ drop (Suc i) xs) = filter Q xs"
proof (induction xs arbitrary: i)
  case Nil
  then show ?case by simp
next
  case (Cons a xs)
  then show ?case by (cases i) auto
qed

lemma one_admin_role:
  assumes "one_admin users" and "u \<in> set users" and "user_id u = ''admin_001''"
  shows "role u = ADMIN"
proof -
  from assms(2,3) have "role u \<in> set (map role (filter (\<lambda>u. user_id u = ''admin_001'') users))"
    by auto
  with assms(1) show ?thesis by (simp add: one_admin_def)
qed

text \<open>
  The operations on the users table other than the snapshot merge keep the
  administrator record: \<open>register\<close> appends a record whose id starts with \<open>user_\<close>,
  \<open>resetPassword\<close> changes a password only, and \<open>updateUserStatus\<close> refuses to touch a
  record with the administrator role.
\<close>

lemma register_one_admin:
  assumes "one_admin (getUsers s)"
    and "register toLowerCase c company contact pw s = Inr (r, s')"
  shows "one_admin (getUsers s')"
proof (cases "ims_users s")
  case None
  with assms(2) show ?thesis by (simp add: register_def)
next
  case (Some users)
  with assms show ?thesis
    by (auto simp: register_def Let_def pushRecord_def getUsers_def or_empty_def one_admin_def
        split: if_splits)
qed

lemma resetPassword_one_admin:
  assumes "one_admin (getUsers s)"
  shows "one_admin (getUsers (snd (resetPassword userId newPassword s)))"
proof (cases "findIndex (\<lambda>u. user_id u = userId) (getUsers s)")
  case None
  with assms show ?thesis by (simp add: resetPassword_def)
next
  case (Some i)
  from findIndex_Some [OF Some] have i: "i < length (getUsers s)" by simp
  have "map role (filter (\<lambda>u. user_id u = ''admin_001'')
      ((getUsers s)[i := (getUsers s ! i)\<lparr>password := newPassword\<rparr>])) =
      map role (filter (\<lambda>u. user_id u = ''admin_001'') (getUsers s))"
    by (rule map_filter_list_update [OF i]) simp_all
  with assms have "one_admin ((getUsers s)[i := (getUsers s ! i)\<lparr>password := newPassword\<rparr>])"
    by (simp add: one_admin_def)
  with Some show ?thesis
    by (simp add: resetPassword_def Let_def pushRecord_def)
      (simp add: getUsers_def or_empty_def)
qed

lemma updateUserStatus_one_admin:
  assumes "one_admin (getUsers s)"
  shows "one_admin (getUsers (snd (updateUserStatus userId newStatus s)))"
proof (cases "findIndex (\<lambda>u. user_id u = userId) (getUsers s)")
  case None
  with assms show ?thesis by (simp add: updateUserStatus_def)
next
  case (Some i)
  from findIndex_Some [OF Some] have i: "i < length (getUsers s)"
    and id: "user_id (getUsers s ! i) = userId" by simp_all
  show ?thesis
  proof (cases "role (getUsers s ! i) = ADMIN")
    case True
    with Some assms show ?thesis by (simp add: updateUserStatus_def Let_def)
  next
    case False
    from i have "getUsers s ! i \<in> set (getUsers s)" by simp
    with False one_admin_role [OF assms] have other: "user_id (getUsers s ! i) \<noteq> ''admin_001''"
      by blast
    have del: "filter (\<lambda>u. user_id u = ''admin_001'')
        (take i (getUsers s) @ drop (Suc i) (getUsers s)) =
        filter (\<lambda>u. user_id u = ''admin_001'') (getUsers s)"
      by (rule filter_remove_nth [where Q = "\<lambda>u. user_id u = ''admin_001''", OF i])
        (rule other)
    have upd: "map role (filter (\<lambda>u. user_id u = ''admin_001'')
        ((getUsers s)[i := (getUsers s ! i)\<lparr>status := newStatus\<rparr>])) =
        map role (filter (\<lambda>u. user_id u = ''admin_001'') (getUsers s))"
      by (rule map_filter_list_update [OF i]) simp_all
    from assms del upd have
      "one_admin (take i (getUsers s) @ drop (Suc i) (getUsers s))"
      "one_admin ((getUsers s)[i := (getUsers s ! i)\<lparr>status := newStatus\<rparr>])"
      by (simp_all add: one_admin_def)
    with Some False show ?thesis
      by (simp add: updateUserStatus_def Let_def pushRecord_def)
        (simp add: getUsers_def or_empty_def)
  qed
qed

section \<open>Ownership filter\<close>

text \<open>
  Claim C1. With an active tenant \<open>T\<close> that is not an administrator, each of
  \<open>getInventory\<close>, \<open>getSales\<close>, \<open>getPurchases\<close> and \<open>getExpenses\<close> returns the records
  of the raw table whose owner is exactly the username of \<open>T\<close>, in table order; with
  no active tenant, or with an active tenant of role Admin, each returns the empty list.
\<close>

theorem owned_reads_filter_by_owner:
  "(\<forall>T. ims_current_user s = Some T \<and> role T \<noteq> ADMIN \<longrightarrow>
      getInventory s = filter (\<lambda>r. inv_owner r = username T) (or_empty (ims_inventory s)) \<and>
      getSales s = filter (\<lambda>r. sale_owner r = username T) (or_empty (ims_sales s)) \<and>
      getPurchases s = filter (\<lambda>r. pur_owner r = username T) (or_empty (ims_purchases s)) \<and>
      getExpenses s = filter (\<lambda>r. exp_owner r = username T) (or_empty (ims_expenses s))) \<and>
   (ims_current_user s = None \<or> (\<exists>T. ims_current_user s = Some T \<and> role T = ADMIN) \<longrightarrow>
      getInventory s = [] \<and> getSales s = [] \<and> getPurchases s = [] \<and> getExpenses s = [])"
  by (auto simp: getInventory_def getSales_def getPurchases_def getExpenses_def
      getCurrentUser_def)

theorem owned_reads_filter_by_owner_witness:
  "ims_current_user acme_shop = Some acme \<and> role acme \<noteq> ADMIN \<and>
   getInventory acme_shop = [widget ''inv_2'' ''Acme'' 10] \<and>
   getSales acme_shop = [sold ''Acme'' 4 5] \<and>
   getPurchases acme_shop = [bought ''Acme''] \<and>
   getExpenses acme_shop = [spent ''Acme'' 6, spent ''Acme'' 3] \<and>
   ims_current_user empty_state = None \<and>
   getInventory empty_state = [] \<and> getSales empty_state = [] \<and>
   getPurchases empty_state = [] \<and> getExpenses empty_state = [] \<and>
   ims_current_user admin_session = Some INITIAL_ADMIN \<and> role INITIAL_ADMIN = ADMIN \<and>
   getInventory admin_session = [] \<and> getSales admin_session = [] \<and>
   getPurchases admin_session = [] \<and> getExpenses admin_session = []"
proof -
  have a: "ims_current_user acme_shop = Some acme \<and> role acme \<noteq> ADMIN"
    by (simp add: acme_shop_def acme_def USER_def ADMIN_def)
  have e: "ims_current_user empty_state = None"
    by (simp add: empty_state_def)
  have d: "ims_current_user admin_session = Some INITIAL_ADMIN \<and> role INITIAL_ADMIN = ADMIN"
    by (simp add: admin_session_def INITIAL_ADMIN_def)
  have tables: "or_empty (ims_inventory acme_shop) =
        [widget ''inv_1'' ''acme'' 3, widget ''inv_2'' ''Acme'' 10]"
      "or_empty (ims_sales acme_shop) = [sold ''Acme'' 4 5, sold ''Bolt'' 1 7]"
      "or_empty (ims_purchases acme_shop) = [bought ''Bolt'', bought ''Acme'']"
      "or_empty (ims_expenses acme_shop) = [spent ''Acme'' 6, spent ''Bolt'' 1, spent ''Acme'' 3]"
    by (simp_all add: acme_shop_def or_empty_def)
  have "getInventory acme_shop = [widget ''inv_2'' ''Acme'' 10] \<and>
   getSales acme_shop = [sold ''Acme'' 4 5] \<and>
   getPurchases acme_shop = [bought ''Acme''] \<and>
   getExpenses acme_shop = [spent ''Acme'' 6, spent ''Acme'' 3]"
    using owned_reads_filter_by_owner [of acme_shop, THEN conjunct1, rule_format, OF a]
    unfolding tables
    by (simp add: acme_def widget_def sold_def bought_def spent_def)
  moreover have "getInventory empty_state = [] \<and> getSales empty_state = [] \<and>
      getPurchases empty_state = [] \<and> getExpenses empty_state = []"
    using owned_reads_filter_by_owner [of empty_state] e by simp
  moreover have "getInventory admin_session = [] \<and> getSales admin_session = [] \<and>
      getPurchases admin_session = [] \<and> getExpenses admin_session = []"
    using owned_reads_filter_by_owner [of admin_session] d by simp
  ultimately show ?thesis using a e d by simp
qed

section \<open>Sales against stock\<close>



text \<open>
  The test and the deduction read the argument differently. With 3 in stock, a sale of
  the quantity \<open>5e-7\<close> passes the test, is recorded as a sale of 5, and leaves the
  stock at \<open>-2\<close>.
\<close>

lemma processSale_parse_gap:
  "toNumber q_5e_7 \<le> of_int (inv_quantity (widget ''inv_1'' ''Acme'' 3)) \<and>
   parseInt q_5e_7 = 5 \<and>
   success (fst (processSale toLowerCase_ascii c0 ''Widget A'' q_5e_7 5
     (acme_shop\<lparr>ims_inventory := Some [widget ''inv_1'' ''Acme'' 3]\<rparr>))) = True \<and>
   map inv_quantity (or_empty (ims_inventory (snd (processSale toLowerCase_ascii c0 ''Widget A''
     q_5e_7 5 (acme_shop\<lparr>ims_inventory := Some [widget ''inv_1'' ''Acme'' 3]\<rparr>))))) = [- 2]"
  by (simp add: processSale_def getCurrentUser_def Let_def pushRecord_def parseFloat_def
      or_empty_def acme_shop_def acme_def widget_def same_item_def q_5e_7_def)

section \<open>Startup reconciliation\<close>

text \<open>
  Claim C3. When the snapshot request succeeds, \<open>syncDown\<close> leaves a local record
  table (users, inventory, sales, purchases, expenses) unchanged whenever the remote
  value for that table is absent, is not an array, or is the empty array; and in no
  case does a local table that was not empty become empty.
\<close>

theorem syncDown_keeps_local_table:
  assumes "json_result body = ''success''" and "json_data body = Some data"
    and "s' = snd (syncDown (Resolves body) s)"
  shows
   "(data_ims_users data = Undefined \<or> data_ims_users data = NotArray \<or>
       data_ims_users data = Array [] \<longrightarrow> ims_users s' = ims_users s) \<and>
    (data_ims_inventory data = Undefined \<or> data_ims_inventory data = NotArray \<or>
       data_ims_inventory data = Array [] \<longrightarrow> ims_inventory s' = ims_inventory s) \<and>
    (data_ims_sales data = Undefined \<or> data_ims_sales data = NotArray \<or>
       data_ims_sales data = Array [] \<longrightarrow> ims_sales s' = ims_sales s) \<and>
    (data_ims_purchases data = Undefined \<or> data_ims_purchases data = NotArray \<or>
       data_ims_purchases data = Array [] \<longrightarrow> ims_purchases s' = ims_purchases s) \<and>
    (data_ims_expenses data = Undefined \<or> data_ims_expenses data = NotArray \<or>
       data_ims_expenses data = Array [] \<longrightarrow> ims_expenses s' = ims_expenses s) \<and>
    (or_empty (ims_users s) \<noteq> [] \<longrightarrow> or_empty (ims_users s') \<noteq> []) \<and>
    (or_empty (ims_inventory s) \<noteq> [] \<longrightarrow> or_empty (ims_inventory s') \<noteq> []) \<and>
    (or_empty (ims_sales s) \<noteq> [] \<longrightarrow> or_empty (ims_sales s') \<noteq> []) \<and>
    (or_empty (ims_purchases s) \<noteq> [] \<longrightarrow> or_empty (ims_purchases s') \<noteq> []) \<and>
    (or_empty (ims_expenses s) \<noteq> [] \<longrightarrow> or_empty (ims_expenses s') \<noteq> [])"
  unfolding assms(3) syncDown_success_tables [OF assms(1,2)]
  by (simp add: saveIfValid_invalid saveIfValid_nonempty)

text \<open>
  The scenario of the specification: the snapshot has an empty users array (and no
  sales, and a purchases value that is not an array); the local tables stay.
\<close>

theorem syncDown_keeps_local_table_witness:
  "json_result remote_body = ''success'' \<and> json_data remote_body = Some remote_data \<and>
   url acme_online \<noteq> [] \<and>
   data_ims_users remote_data = Array [] \<and> data_ims_sales remote_data = Undefined \<and>
   data_ims_purchases remote_data = NotArray \<and>
   ims_users (snd (syncDown (Resolves remote_body) acme_online)) =
     Some [INITIAL_ADMIN, acme] \<and>
   ims_sales (snd (syncDown (Resolves remote_body) acme_online)) =
     Some [sold ''Acme'' 4 5, sold ''Bolt'' 1 7] \<and>
   ims_purchases (snd (syncDown (Resolves remote_body) acme_online)) =
     Some [bought ''Bolt'', bought ''Acme''] \<and>
   or_empty (ims_inventory acme_online) \<noteq> [] \<and>
   or_empty (ims_inventory (snd (syncDown (Resolves remote_body) acme_online))) \<noteq> []"
proof -
  have b: "json_result remote_body = ''success''" "json_data remote_body = Some remote_data"
    by (simp_all add: remote_body_def)
  have d: "data_ims_users remote_data = Array []" "data_ims_sales remote_data = Undefined"
    "data_ims_purchases remote_data = NotArray"
    by (simp_all add: remote_data_def)
  have l: "ims_users acme_online = Some [INITIAL_ADMIN, acme]"
    "ims_sales acme_online = Some [sold ''Acme'' 4 5, sold ''Bolt'' 1 7]"
    "ims_purchases acme_online = Some [bought ''Bolt'', bought ''Acme'']"
    "or_empty (ims_inventory acme_online) \<noteq> []" "url acme_online \<noteq> []"
    by (simp_all add: acme_online_def acme_shop_def or_empty_def)
  from syncDown_keeps_local_table [OF b refl, of acme_online] b d l
  show ?thesis by simp
qed

text \<open>
  Claim C4. When a cloud url is configured and the snapshot request succeeds,
  \<open>syncDown\<close> replaces a local record table by the remote array whenever that array
  is not empty, whatever the local table held.
\<close>

theorem syncDown_replaces_with_remote_table:
  assumes "url s \<noteq> []"
    and "json_result body = ''success''" and "json_data body = Some data"
    and "s' = snd (syncDown (Resolves body) s)"
  shows
   "fst (syncDown (Resolves body) s) =
      \<lparr> success = True, message = Some ''Data synced from Cloud'' \<rparr> \<and>
    (\<forall>xs. data_ims_users data = Array xs \<and> xs \<noteq> [] \<longrightarrow> ims_users s' = Some xs) \<and>
    (\<forall>xs. data_ims_inventory data = Array xs \<and> xs \<noteq> [] \<longrightarrow> ims_inventory s' = Some xs) \<and>
    (\<forall>xs. data_ims_sales data = Array xs \<and> xs \<noteq> [] \<longrightarrow> ims_sales s' = Some xs) \<and>
    (\<forall>xs. data_ims_purchases data = Array xs \<and> xs \<noteq> [] \<longrightarrow> ims_purchases s' = Some xs) \<and>
    (\<forall>xs. data_ims_expenses data = Array xs \<and> xs \<noteq> [] \<longrightarrow> ims_expenses s' = Some xs)"
proof -
  have "fst (syncDown (Resolves body) s) =
      \<lparr> success = True, message = Some ''Data synced from Cloud'' \<rparr>"
    using assms(1-3) by (simp add: syncDown_def Let_def)
  then show ?thesis
    unfolding assms(4) syncDown_success_tables [OF assms(2,3)]
    using assms(1) by (simp add: saveIfValid_valid)
qed

text \<open>
  The local inventory of two items is replaced by the three remote items, and the local
  expenses of three records by the single remote one; on a storage without an
  inventory key the remote items are stored as well.
\<close>

theorem syncDown_replaces_with_remote_table_witness:
  "url acme_online \<noteq> [] \<and>
   json_result remote_body = ''success'' \<and> json_data remote_body = Some remote_data \<and>
   length (or_empty (ims_inventory acme_online)) = 2 \<and>
   length (or_empty (ims_expenses acme_online)) = 3 \<and>
   ims_inventory (snd (syncDown (Resolves remote_body) acme_online)) =
     Some [widget ''inv_7'' ''Acme'' 1, widget ''inv_8'' ''Bolt'' 2, widget ''inv_9'' ''Acme'' 5] \<and>
   ims_expenses (snd (syncDown (Resolves remote_body) acme_online)) = Some [spent ''Bolt'' 9] \<and>
   ims_inventory (snd (syncDown (Resolves remote_body)
       (empty_state\<lparr>url := ''https://sheet.example/exec''\<rparr>))) =
     Some [widget ''inv_7'' ''Acme'' 1, widget ''inv_8'' ''Bolt'' 2, widget ''inv_9'' ''Acme'' 5]"
proof -
  have b: "json_result remote_body = ''success''" "json_data remote_body = Some remote_data"
    by (simp_all add: remote_body_def)
  have d: "data_ims_inventory remote_data =
      Array [widget ''inv_7'' ''Acme'' 1, widget ''inv_8'' ''Bolt'' 2, widget ''inv_9'' ''Acme'' 5]"
    "data_ims_expenses remote_data = Array [spent ''Bolt'' 9]"
    by (simp_all add: remote_data_def)
  have l: "url acme_online \<noteq> []" "length (or_empty (ims_inventory acme_online)) = 2"
    "length (or_empty (ims_expenses acme_online)) = 3"
    by (simp_all add: acme_online_def acme_shop_def or_empty_def)
  have e: "url (empty_state\<lparr>url := ''https://sheet.example/exec''\<rparr>) \<noteq> []"
    by simp
  from syncDown_replaces_with_remote_table [OF l(1) b refl]
    syncDown_replaces_with_remote_table [OF e b refl] b d l
  show ?thesis by simp
qed

text \<open>
  Claim C9. With an empty cloud url, \<open>syncDown\<close> returns the failure result
  \<open>No Cloud URL configured\<close> whatever the network would answer, and \<open>pushRecord\<close>
  returns without effect: in both cases the storage and the list of issued requests
  are exactly as before.
\<close>

theorem unconfigured_url_short_circuits:
  "url s = [] \<Longrightarrow>
     syncDown resp s = (failure ''No Cloud URL configured'', s) \<and>
     pushRecord key data s = s"
  by (simp add: syncDown_def pushRecord_def)

theorem unconfigured_url_short_circuits_witness:
  "url acme_shop = [] \<and>
   syncDown (Resolves remote_body) acme_shop = (failure ''No Cloud URL configured'', acme_shop) \<and>
   pushRecord USERS (UserRec acme) acme_shop = acme_shop \<and>
   sent acme_shop = []"
proof -
  have u: "url acme_shop = []" "sent acme_shop = []"
    by (simp_all add: acme_shop_def)
  from unconfigured_url_short_circuits [OF u(1), of "Resolves remote_body" USERS "UserRec acme"] u
  show ?thesis by simp
qed

section \<open>Financial summary\<close>

text \<open>
  Claim C10. \<open>getFinancialSummary\<close> returns as \<open>totalSales\<close> the sum of the totals of
  the sales that \<open>getSales\<close> returns (the sales owned by the active tenant), as
  \<open>totalExpenses\<close> the sum of the amounts of the expenses that \<open>getExpenses\<close> returns,
  and as \<open>netProfit\<close> their difference; with no active tenant or an active tenant of
  role Admin all three are zero. Sums are taken in the real numbers.
\<close>

theorem financial_summary_sums:
  "totalSales (getFinancialSummary s) = sum_list (map sale_total (getSales s)) \<and>
   totalExpenses (getFinancialSummary s) = sum_list (map exp_amount (getExpenses s)) \<and>
   netProfit (getFinancialSummary s) =
     totalSales (getFinancialSummary s) - totalExpenses (getFinancialSummary s) \<and>
   (\<forall>T. ims_current_user s = Some T \<and> role T \<noteq> ADMIN \<longrightarrow>
      totalSales (getFinancialSummary s) =
        sum_list (map sale_total
          (filter (\<lambda>r. sale_owner r = username T) (or_empty (ims_sales s)))) \<and>
      totalExpenses (getFinancialSummary s) =
        sum_list (map exp_amount
          (filter (\<lambda>r. exp_owner r = username T) (or_empty (ims_expenses s))))) \<and>
   (ims_current_user s = None \<or> (\<exists>T. ims_current_user s = Some T \<and> role T = ADMIN) \<longrightarrow>
      getFinancialSummary s = \<lparr> totalSales = 0, totalExpenses = 0, netProfit = 0 \<rparr>)"
  by (auto simp: getFinancialSummary_def Let_def foldl_add_sum_list getSales_def
      getExpenses_def getCurrentUser_def)

theorem financial_summary_sums_witness:
  "ims_current_user acme_shop = Some acme \<and> role acme \<noteq> ADMIN \<and>
   getFinancialSummary acme_shop = \<lparr> totalSales = 20, totalExpenses = 9, netProfit = 11 \<rparr> \<and>
   ims_current_user admin_session = Some INITIAL_ADMIN \<and> role INITIAL_ADMIN = ADMIN \<and>
   getFinancialSummary admin_session = \<lparr> totalSales = 0, totalExpenses = 0, netProfit = 0 \<rparr> \<and>
   ims_current_user empty_state = None \<and>
   getFinancialSummary empty_state = \<lparr> totalSales = 0, totalExpenses = 0, netProfit = 0 \<rparr>"
proof -
  have a: "ims_current_user acme_shop = Some acme \<and> role acme \<noteq> ADMIN"
    by (simp add: acme_shop_def acme_def USER_def ADMIN_def)
  have e: "ims_current_user empty_state = None"
    by (simp add: empty_state_def)
  have d: "ims_current_user admin_session = Some INITIAL_ADMIN \<and> role INITIAL_ADMIN = ADMIN"
    by (simp add: admin_session_def INITIAL_ADMIN_def)
  have tables: "or_empty (ims_sales acme_shop) = [sold ''Acme'' 4 5, sold ''Bolt'' 1 7]"
      "or_empty (ims_expenses acme_shop) = [spent ''Acme'' 6, spent ''Bolt'' 1, spent ''Acme'' 3]"
    by (simp_all add: acme_shop_def or_empty_def)
  note r = financial_summary_sums [of acme_shop]
  have "totalSales (getFinancialSummary acme_shop) = 20 \<and>
      totalExpenses (getFinancialSummary acme_shop) = 9"
    using r [THEN conjunct2, THEN conjunct2, THEN conjunct2, THEN conjunct1, rule_format, OF a]
    unfolding tables
    by (simp add: acme_def sold_def spent_def)
  moreover from r have "netProfit (getFinancialSummary acme_shop) =
      totalSales (getFinancialSummary acme_shop) - totalExpenses (getFinancialSummary acme_shop)"
    by blast
  ultimately have "getFinancialSummary acme_shop =
      \<lparr> totalSales = 20, totalExpenses = 9, netProfit = 11 \<rparr>"
    by (cases "getFinancialSummary acme_shop") simp
  moreover have "getFinancialSummary admin_session =
      \<lparr> totalSales = 0, totalExpenses = 0, netProfit = 0 \<rparr>"
    using financial_summary_sums [of admin_session] d by blast
  moreover have "getFinancialSummary empty_state =
      \<lparr> totalSales = 0, totalExpenses = 0, netProfit = 0 \<rparr>"
    using financial_summary_sums [of empty_state] e by blast
  ultimately show ?thesis using a e d by simp
qed

section \<open>Registration\<close>

text \<open>
  Claim C7. On a users table in which some tenant's username equals the requested
  company name up to letter case (the two have the same \<open>toLowerCase\<close>), \<open>register\<close>
  returns a result with \<open>success\<close> false and the message
  \<open>Company Name already registered\<close>, and leaves the state unchanged. When no
  username matches, it succeeds and appends exactly one tenant, with the company name
  as username, role User and status Pending.
\<close>

theorem register_rejects_duplicates:
  assumes "ims_users s = Some users"
  shows
   "((\<exists>u\<in>set users. toLowerCase (username u) = toLowerCase company) \<longrightarrow>
       register toLowerCase c company contact pw s =
         Inr (\<lparr> success = False, message = Some ''Company Name already registered'' \<rparr>, s)) \<and>
    ((\<forall>u\<in>set users. toLowerCase (username u) \<noteq> toLowerCase company) \<longrightarrow>
       (\<exists>r s' newUser. register toLowerCase c company contact pw s = Inr (r, s') \<and>
          success r = True \<and>
          ims_users s' = Some (users @ [newUser]) \<and>
          username newUser = company \<and> companyName newUser = company \<and>
          contactPerson newUser = contact \<and> password newUser = pw \<and>
          role newUser = ''User'' \<and> status newUser = ''Pending''))"
proof (intro conjI impI)
  assume "\<exists>u\<in>set users. toLowerCase (username u) = toLowerCase company"
  then have "find (\<lambda>u. toLowerCase (username u) = toLowerCase company) users \<noteq> None"
    by (auto simp: find_None_iff)
  with assms show "register toLowerCase c company contact pw s =
      Inr (\<lparr> success = False, message = Some ''Company Name already registered'' \<rparr>, s)"
    by (simp add: register_def failure_def)
next
  assume "\<forall>u\<in>set users. toLowerCase (username u) \<noteq> toLowerCase company"
  then have "find (\<lambda>u. toLowerCase (username u) = toLowerCase company) users = None"
    by (simp add: find_None_iff)
  with assms show "\<exists>r s' newUser. register toLowerCase c company contact pw s = Inr (r, s') \<and>
          success r = True \<and>
          ims_users s' = Some (users @ [newUser]) \<and>
          username newUser = company \<and> companyName newUser = company \<and>
          contactPerson newUser = contact \<and> password newUser = pw \<and>
          role newUser = ''User'' \<and> status newUser = ''Pending''"
    by (simp add: register_def Let_def pushRecord_def USER_def)
qed

text \<open>
  Acme is registered: \<open>ACME\<close> is refused, \<open>Bolt\<close> is appended as a pending user.
\<close>

theorem register_rejects_duplicates_witness:
  "ims_users acme_shop = Some [INITIAL_ADMIN, acme] \<and>
   toLowerCase_ascii (username acme) = toLowerCase_ascii ''ACME'' \<and>
   success (fst (projr (register toLowerCase_ascii c0 ''ACME'' ''Al'' ''pw'' acme_shop))) = False \<and>
   message (fst (projr (register toLowerCase_ascii c0 ''ACME'' ''Al'' ''pw'' acme_shop))) =
     Some ''Company Name already registered'' \<and>
   snd (projr (register toLowerCase_ascii c0 ''ACME'' ''Al'' ''pw'' acme_shop)) = acme_shop \<and>
   toLowerCase_ascii (username INITIAL_ADMIN) \<noteq> toLowerCase_ascii ''Bolt'' \<and>
   toLowerCase_ascii (username acme) \<noteq> toLowerCase_ascii ''Bolt'' \<and>
   success (fst (projr (register toLowerCase_ascii c0 ''Bolt'' ''Bo'' ''pw'' acme_shop))) = True \<and>
   map username (or_empty (ims_users
     (snd (projr (register toLowerCase_ascii c0 ''Bolt'' ''Bo'' ''pw'' acme_shop))))) =
     [''Admin'', ''Acme'', ''Bolt''] \<and>
   map role (or_empty (ims_users
     (snd (projr (register toLowerCase_ascii c0 ''Bolt'' ''Bo'' ''pw'' acme_shop))))) =
     [''Admin'', ''User'', ''User''] \<and>
   map status (or_empty (ims_users
     (snd (projr (register toLowerCase_ascii c0 ''Bolt'' ''Bo'' ''pw'' acme_shop))))) =
     [''Approved'', ''Approved'', ''Pending'']"
proof -
  have u: "ims_users acme_shop = Some [INITIAL_ADMIN, acme]"
    by (simp add: acme_shop_def)
  have dup: "toLowerCase_ascii (username acme) = toLowerCase_ascii ''ACME''"
    by (simp add: acme_def toLowerCase_ascii_def lower_char_def)
  have new: "toLowerCase_ascii (username INITIAL_ADMIN) \<noteq> toLowerCase_ascii ''Bolt''"
    "toLowerCase_ascii (username acme) \<noteq> toLowerCase_ascii ''Bolt''"
    by (simp_all add: acme_def INITIAL_ADMIN_def toLowerCase_ascii_def lower_char_def)
  note r = register_rejects_duplicates [OF u, of toLowerCase_ascii]
  have "register toLowerCase_ascii c0 ''ACME'' ''Al'' ''pw'' acme_shop =
     Inr (\<lparr> success = False, message = Some ''Company Name already registered'' \<rparr>, acme_shop)"
    using r [of "''ACME''" c0 "''Al''" "''pw''"] dup by simp
  then have a: "success (fst (projr (register toLowerCase_ascii c0 ''ACME'' ''Al'' ''pw'' acme_shop))) =
        False \<and>
      message (fst (projr (register toLowerCase_ascii c0 ''ACME'' ''Al'' ''pw'' acme_shop))) =
        Some ''Company Name already registered'' \<and>
      snd (projr (register toLowerCase_ascii c0 ''ACME'' ''Al'' ''pw'' acme_shop)) = acme_shop"
    by simp
  from r [of "''Bolt''" c0 "''Bo''" "''pw''"] new obtain res s' newUser where
    "register toLowerCase_ascii c0 ''Bolt'' ''Bo'' ''pw'' acme_shop = Inr (res, s')"
    "success res = True"
    "ims_users s' = Some ([INITIAL_ADMIN, acme] @ [newUser])"
    "username newUser = ''Bolt''" "role newUser = ''User''" "status newUser = ''Pending''"
    by auto
  then have b: "success (fst (projr (register toLowerCase_ascii c0 ''Bolt'' ''Bo'' ''pw'' acme_shop))) =
        True \<and>
      map username (or_empty (ims_users (snd (projr
        (register toLowerCase_ascii c0 ''Bolt'' ''Bo'' ''pw'' acme_shop))))) =
        [''Admin'', ''Acme'', ''Bolt''] \<and>
      map role (or_empty (ims_users (snd (projr
        (register toLowerCase_ascii c0 ''Bolt'' ''Bo'' ''pw'' acme_shop))))) =
        [''Admin'', ''User'', ''User''] \<and>
      map status (or_empty (ims_users (snd (projr
        (register toLowerCase_ascii c0 ''Bolt'' ''Bo'' ''pw'' acme_shop))))) =
        [''Approved'', ''Approved'', ''Pending'']"
    by (simp add: or_empty_def INITIAL_ADMIN_def acme_def ADMIN_def USER_def)
  from u dup new a b show ?thesis by blast
qed

section \<open>Purchases and the tenant's view of the stock\<close>




section \<open>Stock levels never go below zero\<close>




section \<open>The administrator record and the snapshot merge\<close>

text \<open>
  Claim C6. After \<open>initStorage\<close> the users table holds exactly one record with the id
  \<open>admin_001\<close>, equal to the built-in administrator, whatever was stored before
  (\<open>initStorage_admin\<close>), and \<open>register\<close>, \<open>resetPassword\<close> and \<open>updateUserStatus\<close>
  keep exactly one such record. The snapshot merge does not: when the remote users
  array holds the registered tenants only, \<open>syncDown\<close> after \<open>initStorage\<close> stores that
  array as the users table, and no record with the reserved id is left.
\<close>

theorem syncDown_drops_admin:
  "filter (\<lambda>u. user_id u = ''admin_001'') (getUsers (initStorage acme_online)) =
     [INITIAL_ADMIN] \<and>
   one_admin (getUsers (initStorage acme_online)) \<and>
   fst (syncDown (Resolves tenants_body) (initStorage acme_online)) =
     \<lparr> success = True, message = Some ''Data synced from Cloud'' \<rparr> \<and>
   getUsers (snd (syncDown (Resolves tenants_body) (initStorage acme_online))) = [acme] \<and>
   filter (\<lambda>u. user_id u = ''admin_001'')
     (getUsers (snd (syncDown (Resolves tenants_body) (initStorage acme_online)))) = [] \<and>
   \<not> one_admin (getUsers (snd (syncDown (Resolves tenants_body) (initStorage acme_online))))"
proof -
  have b: "json_result tenants_body = ''success''"
    "json_data tenants_body = Some (remote_data\<lparr>data_ims_users := Array [acme]\<rparr>)"
    by (simp_all add: tenants_body_def)
  have u: "url (initStorage acme_online) \<noteq> []"
    by (simp add: initStorage_def Let_def acme_online_def)
  have ok: "fst (syncDown (Resolves tenants_body) (initStorage acme_online)) =
     \<lparr> success = True, message = Some ''Data synced from Cloud'' \<rparr>"
    using b u by (simp add: syncDown_def Let_def)
  have "ims_users (snd (syncDown (Resolves tenants_body) (initStorage acme_online))) =
      Some [acme]"
    unfolding syncDown_success_tables [OF b] using u by (simp add: saveIfValid_valid)
  then have users: "getUsers (snd (syncDown (Resolves tenants_body) (initStorage acme_online))) =
      [acme]"
    by (simp add: getUsers_def or_empty_def)
  have gone: "filter (\<lambda>u. user_id u = ''admin_001'') [acme] = []"
    by (simp add: acme_def)
  from ok initStorage_admin [of acme_online] initStorage_one_admin [of acme_online] gone
  show ?thesis unfolding users by (simp add: one_admin_def)
qed

end
